theory Spec2Isabelle
  imports Main "HOL-Library.Multiset" "HOL-Library.Char_ord" "HOL-Library.List_Lexorder"
begin

section \<open>Values crossing the HTTP boundary\<close>

text \<open>
  The request body is whatever \<^verbatim>\<open>json.loads\<close> returns: a dict in the intended use, but any
  JSON value in general. A Python float is identified by the text \<^verbatim>\<open>repr\<close> writes for it
  (one text for each float); no handler computes with floats, they are only handed to SQLite.
  A dict is an association list read through \<open>map_of\<close>.

  A string is the sequence of bytes of its UTF-8 encoding. JSON can escape half of a
  surrogate pair on its own; such a code point is written here as the three bytes UTF-8
  would give it (first byte ED, second byte A0 or more), which no encodable text contains,
  and Python refuses to encode a string holding one.
\<close>

datatype pyfloat = PyFloat string

datatype json =
    JNull
  | JBool bool
  | JInt int
  | JFloat pyfloat
  | JStr string
  | JList "json list"
  | JDict "(string \<times> json) list"

text \<open>
  Exceptions of Python and of the \<^verbatim>\<open>sqlite3\<close> module that the handlers can meet.
  \<open>SqliteError\<close> stands for the binding errors of \<^verbatim>\<open>sqlite3\<close> (an unsupported parameter type);
  \<open>OperationalError\<close> is what \<^verbatim>\<open>sqlite3\<close> raises when the database is locked or full.
  A computation that may raise returns \<open>exn + 'a\<close>, \<open>Inl\<close> being the raise.
\<close>

datatype exn =
    AttributeError
  | KeyError string
  | TypeError
  | ValueError
  | OverflowError
  | MemoryError
  | UnicodeEncodeError
  | SqliteError
  | IntegrityError
  | OperationalError
  | JSONDecodeError

text \<open>Whether a string holds half of a surrogate pair, which cannot be encoded.\<close>

fun has_surrogate :: "string \<Rightarrow> bool" where
  "has_surrogate (a # b # cs) =
     ((of_char a = (0xED :: nat) \<and> of_char b \<ge> (0xA0 :: nat)) \<or> has_surrogate (b # cs))"
| "has_surrogate _ = False"

text \<open>\<^verbatim>\<open>d.get(k)\<close> on a dict: the value, or \<^verbatim>\<open>None\<close> when the key is missing.\<close>

definition get :: "(string \<times> json) list \<Rightarrow> string \<Rightarrow> json" where
  "get kvs k = (case map_of kvs k of None \<Rightarrow> JNull | Some v \<Rightarrow> v)"

section \<open>The record store\<close>

text \<open>
  The storage classes a bound parameter or a stored cell can have (no handler produces a BLOB).
\<close>

datatype sqlval = SqlNull | SqlInt int | SqlReal pyfloat | SqlText string

text \<open>
  What the program takes from its libraries and cannot be read off its own source: the
  coercions of the SQLite engine between storage classes, the hash, the JSON parser, the
  Python conversions \<^verbatim>\<open>int()\<close> and \<^verbatim>\<open>float()\<close>, and the limits of a buffered read. Every
  theorem below holds for any such behaviour.
\<close>

record lib =
  numeric_of_text :: "string \<Rightarrow> sqlval"
    \<comment> \<open>NUMERIC affinity on a text: \<open>SqlInt\<close> or \<open>SqlReal\<close> when it reads as a number, else the text\<close>
  int_of_real :: "pyfloat \<Rightarrow> int option"
    \<comment> \<open>the integer a float is exactly equal to, if there is one\<close>
  text_of_int :: "int \<Rightarrow> string"
  text_of_real :: "pyfloat \<Rightarrow> string"
    \<comment> \<open>TEXT affinity on a number\<close>
  real_is_nan :: "pyfloat \<Rightarrow> bool"
  sha256_hexdigest :: "string \<Rightarrow> string"
  json_loads :: "string \<Rightarrow> exn + json"
    \<comment> \<open>\<^verbatim>\<open>json.loads(post_data.decode('utf-8'))\<close>\<close>
  py_int :: "json \<Rightarrow> exn + int"
  py_float :: "json \<Rightarrow> exn + pyfloat"
  read_refused :: "int \<Rightarrow> exn option"
    \<comment> \<open>what \<^verbatim>\<open>rfile.read(n)\<close> raises for a count \<open>n \<ge> 0\<close> too large for it
       (OverflowError, MemoryError), if anything\<close>

text \<open>
  How \<^verbatim>\<open>sqlite3\<close> binds a Python value given for a \<^verbatim>\<open>?\<close>: \<^verbatim>\<open>None\<close> is NULL, \<^verbatim>\<open>bool\<close> and \<^verbatim>\<open>int\<close>
  are INTEGER (64 bits, else OverflowError), \<^verbatim>\<open>float\<close> is REAL except NaN, which is NULL,
  \<^verbatim>\<open>str\<close> is TEXT if it can be encoded; a list or a dict is refused.
\<close>

fun sql_param :: "lib \<Rightarrow> json \<Rightarrow> exn + sqlval" where
  "sql_param L JNull = Inr SqlNull"
| "sql_param L (JBool b) = Inr (SqlInt (if b then 1 else 0))"
| "sql_param L (JInt n) =
     (if - (2 ^ 63) \<le> n \<and> n < 2 ^ 63 then Inr (SqlInt n) else Inl OverflowError)"
| "sql_param L (JFloat x) = Inr (if real_is_nan L x then SqlNull else SqlReal x)"
| "sql_param L (JStr s) = (if has_surrogate s then Inl UnicodeEncodeError else Inr (SqlText s))"
| "sql_param L (JList xs) = Inl SqliteError"
| "sql_param L (JDict kvs) = Inl SqliteError"

record user_row =
  u_id :: int
  u_username :: string
  u_email :: string
  u_password_hash :: string
  u_user_type :: string
  u_created_at :: string

record animal_row =
  a_id :: int
  a_name :: string
  a_species :: string
  a_breed :: string
  a_color :: string
  a_age_months :: int
  a_gender :: string
  a_vaccinated :: int
  a_activity_level :: string
  a_weight_kg :: pyfloat
  a_description :: "string option"
  a_profile_photo_url :: "string option"
  a_created_at :: string

record application_row =
  r_id :: int
  r_adopter_id :: sqlval
  r_animal_id :: sqlval
  r_adopter_name :: string
  r_pet_name :: string
  r_status :: string
  r_applied_at :: string

text \<open>
  The store: the three tables in row order, for each the largest identifier it has ever
  given out (the \<^verbatim>\<open>sqlite_sequence\<close> entry of an AUTOINCREMENT table), and whether a
  connection that an earlier call left open still holds the write lock. The interpreter
  closes such a connection when its collector finds it, at a time the program does not
  choose; the store a call starts in says whether that has happened.
\<close>

record db =
  users :: "user_row list"
  animals :: "animal_row list"
  adoption_applications :: "application_row list"
  users_seq :: int
  animals_seq :: int
  adoption_applications_seq :: int
  write_lock :: bool

text \<open>
  \<^verbatim>\<open>WHERE id = ?\<close> on an INTEGER PRIMARY KEY: NULL equals nothing, an integer is compared as
  it is, a real matches the integer it equals, and a text is first given NUMERIC affinity.
\<close>

definition id_equals :: "lib \<Rightarrow> int \<Rightarrow> sqlval \<Rightarrow> bool" where
  "id_equals L i v =
     (case v of
        SqlNull \<Rightarrow> False
      | SqlInt n \<Rightarrow> i = n
      | SqlReal x \<Rightarrow> int_of_real L x = Some i
      | SqlText s \<Rightarrow>
          (case numeric_of_text L s of
             SqlInt n \<Rightarrow> i = n
           | SqlReal x \<Rightarrow> int_of_real L x = Some i
           | _ \<Rightarrow> False))"

text \<open>
  \<^verbatim>\<open>SELECT species, activity_level, age_months FROM animals WHERE id = ?\<close> followed by
  \<^verbatim>\<open>fetchone()\<close>: the first matching row as a triple, or \<^verbatim>\<open>None\<close>. Reading needs no
  write lock.
\<close>

definition select_pet :: "lib \<Rightarrow> db \<Rightarrow> json \<Rightarrow> exn + (string \<times> string \<times> int) option" where
  "select_pet L d pet_id =
     (case sql_param L pet_id of
        Inl e \<Rightarrow> Inl e
      | Inr v \<Rightarrow>
          Inr (map_option (\<lambda>a. (a_species a, a_activity_level a, a_age_months a))
                 (find (\<lambda>a. id_equals L (a_id a) v) (animals d))))"

section \<open>Responses\<close>

text \<open>
  The dicts the handlers return. \<open>FailureOf e\<close> is \<^verbatim>\<open>{'success': False, 'message': str(e)}\<close>,
  whose text comes from the library that raised \<open>e\<close>.
\<close>

datatype response =
    Ok
  | OkUser int string string string
  | OkPets "json list"
  | OkRequests "json list"
  | OkMatch (compatibility_percentage: int) (message: string) (reasons: "string list")
  | Failure string
  | FailureOf exn

section \<open>The compatibility check\<close>

text \<open>
  The four rule blocks of \<^verbatim>\<open>handle_compatibility_check\<close>, each taking the running
  \<^verbatim>\<open>(score, reasons)\<close> to its next value. \<^verbatim>\<open>x == 'High'\<close> against a string literal is true of
  that string only, whatever the type of \<^verbatim>\<open>x\<close>.
\<close>

definition yard_rule :: "string \<Rightarrow> bool \<Rightarrow> int \<times> string list \<Rightarrow> int \<times> string list" where
  "yard_rule activity_level has_yard st =
     (case st of (score, rs) \<Rightarrow>
        if activity_level = ''High'' \<and> \<not> has_yard then
          (score - 20, rs @ [''High-energy pets benefit from having a yard''])
        else if activity_level = ''High'' \<and> has_yard then
          (score, rs @ [''Great match! This pet will love your yard''])
        else (score, rs))"

definition experience_rule :: "string \<Rightarrow> json \<Rightarrow> int \<times> string list \<Rightarrow> int \<times> string list" where
  "experience_rule activity_level experience_level st =
     (case st of (score, rs) \<Rightarrow>
        if experience_level = JStr ''Beginner'' \<and> activity_level = ''High'' then
          (score - 15, rs @ [''High-energy pets may be challenging for beginners''])
        else if experience_level = JStr ''Experienced'' then
          (score + 10, rs @ [''Your experience is perfect for any pet''])
        else (score, rs))"

definition children_rule :: "int \<Rightarrow> bool \<Rightarrow> int \<times> string list \<Rightarrow> int \<times> string list" where
  "children_rule age_months has_children st =
     (case st of (score, rs) \<Rightarrow>
        if has_children \<and> age_months < 12 then
          (score - 10, rs @ [''Young pets may need extra supervision around children''])
        else if has_children then
          (score, rs @ [''This pet's age is good for families with children''])
        else (score, rs))"

definition other_pets_rule :: "string \<Rightarrow> bool \<Rightarrow> int \<times> string list \<Rightarrow> int \<times> string list" where
  "other_pets_rule species has_other_pets st =
     (case st of (score, rs) \<Rightarrow>
        if has_other_pets then
          (if species = ''Dog'' then
             (score, rs @ [''Dogs usually adapt well to other pets''])
           else
             (score - 5, rs @ [''Cats may need gradual introduction to other pets'']))
        else (score, rs))"

text \<open>Lines 236 to 259: the score and the reasons before the clamp.\<close>

definition raw_score ::
  "string \<times> string \<times> int \<Rightarrow> bool \<Rightarrow> bool \<Rightarrow> bool \<Rightarrow> json \<Rightarrow> int \<times> string list" where
  "raw_score pet has_yard has_children has_other_pets experience_level =
     (case pet of (species, activity_level, age_months) \<Rightarrow>
        other_pets_rule species has_other_pets
          (children_rule age_months has_children
             (experience_rule activity_level experience_level
                (yard_rule activity_level has_yard (100, [])))))"

text \<open>Lines 261 to 268.\<close>

definition match_message :: "int \<Rightarrow> string" where
  "match_message score =
     (if score \<ge> 80 then ''Excellent match! This pet would be perfect for you.''
      else if score \<ge> 60 then ''Good match! This pet would fit well in your home.''
      else if score \<ge> 40 then ''Fair match. Consider the factors below carefully.''
      else ''This pet may not be the best fit, but adoption is always possible with proper preparation.'')"

text \<open>Lines 235 to 269: what is returned once the pet has been found.\<close>

definition compatibility ::
  "string \<times> string \<times> int \<Rightarrow> bool \<Rightarrow> bool \<Rightarrow> bool \<Rightarrow> json \<Rightarrow> response" where
  "compatibility pet has_yard has_children has_other_pets experience_level =
     (case raw_score pet has_yard has_children has_other_pets experience_level of
        (score, rs) \<Rightarrow>
          (let score = max 0 (min 100 score)
           in OkMatch score (match_message score) rs))"

text \<open>
  The handler. On a body that is not a dict the first \<^verbatim>\<open>data.get\<close> raises AttributeError.
\<close>

fun handle_compatibility_check :: "lib \<Rightarrow> db \<Rightarrow> json \<Rightarrow> exn + response" where
  "handle_compatibility_check L d (JDict kvs) =
     (let pet_id = get kvs ''pet_id'';
          has_yard = (get kvs ''has_yard'' = JStr ''yes'');
          has_children = (get kvs ''has_children'' = JStr ''yes'');
          has_other_pets = (get kvs ''has_other_pets'' = JStr ''yes'');
          experience_level = get kvs ''experience_level''
      in case select_pet L d pet_id of
           Inl e \<Rightarrow> Inl e
         | Inr None \<Rightarrow> Inr (Failure ''Pet not found'')
         | Inr (Some pet) \<Rightarrow>
             Inr (compatibility pet has_yard has_children has_other_pets experience_level))"
| "handle_compatibility_check L d _ = Inl AttributeError"

subsection \<open>The algorithm as the specification words it\<close>

text \<open>
  The specification gives four groups of rules; in each group the first rule whose condition
  holds fires, changing the score by its delta and emitting its reason. The score starts at
  100, is clamped to the range from 0 to 100, and selects the message.
\<close>

type_synonym rule = "bool \<times> int \<times> string"

fun first_firing :: "rule list \<Rightarrow> (int \<times> string) option" where
  "first_firing [] = None"
| "first_firing ((c, dl, r) # rest) = (if c then Some (dl, r) else first_firing rest)"

definition spec_groups ::
  "string \<Rightarrow> string \<Rightarrow> int \<Rightarrow> bool \<Rightarrow> bool \<Rightarrow> bool \<Rightarrow> json \<Rightarrow> rule list list" where
  "spec_groups species activityLevel ageMonths hasYard hasChildren hasOtherPets experienceLevel =
     [ [ (activityLevel = ''High'' \<and> \<not> hasYard, - 20,
            ''High-energy pets benefit from having a yard''),
         (activityLevel = ''High'' \<and> hasYard, 0,
            ''Great match! This pet will love your yard'') ],
       [ (experienceLevel = JStr ''Beginner'' \<and> activityLevel = ''High'', - 15,
            ''High-energy pets may be challenging for beginners''),
         (experienceLevel = JStr ''Experienced'', 10,
            ''Your experience is perfect for any pet'') ],
       [ (hasChildren \<and> ageMonths < 12, - 10,
            ''Young pets may need extra supervision around children''),
         (hasChildren, 0,
            ''This pet's age is good for families with children'') ],
       [ (hasOtherPets \<and> species = ''Dog'', 0,
            ''Dogs usually adapt well to other pets''),
         (hasOtherPets, - 5,
            ''Cats may need gradual introduction to other pets'') ] ]"

definition spec_message :: "int \<Rightarrow> string" where
  "spec_message p =
     (if p < 40 then
        ''This pet may not be the best fit, but adoption is always possible with proper preparation.''
      else if p < 60 then ''Fair match. Consider the factors below carefully.''
      else if p < 80 then ''Good match! This pet would fit well in your home.''
      else ''Excellent match! This pet would be perfect for you.'')"

definition spec_score ::
  "string \<Rightarrow> string \<Rightarrow> int \<Rightarrow> bool \<Rightarrow> bool \<Rightarrow> bool \<Rightarrow> json \<Rightarrow> int \<times> string \<times> string list" where
  "spec_score species activityLevel ageMonths hasYard hasChildren hasOtherPets experienceLevel =
     (let fired = List.map_filter first_firing
                    (spec_groups species activityLevel ageMonths hasYard hasChildren
                       hasOtherPets experienceLevel);
          total = 100 + sum_list (map fst fired);
          p = (if total < 0 then 0 else if total > 100 then 100 else total)
      in (p, spec_message p, map snd fired))"

text \<open>
  The effect of a rule group that fired (or did not) on the running score and reasons; the
  source's rule blocks and the specification's rule groups meet in it.
\<close>

fun apply_fired :: "(int \<times> string) option \<Rightarrow> int \<times> string list \<Rightarrow> int \<times> string list" where
  "apply_fired None st = st"
| "apply_fired (Some (dl, r)) (score, rs) = (score + dl, rs @ [r])"

section \<open>The other handlers\<close>

text \<open>Sequencing of computations that may raise: the first exception ends the sequence.\<close>

definition and_then :: "exn + 'a \<Rightarrow> ('a \<Rightarrow> exn + 'b) \<Rightarrow> exn + 'b" where
  "and_then m f = (case m of Inl e \<Rightarrow> Inl e | Inr x \<Rightarrow> f x)"

text \<open>\<^verbatim>\<open>data.get(k)\<close> on any JSON value: only a dict has the method.\<close>

fun py_get :: "json \<Rightarrow> string \<Rightarrow> exn + json" where
  "py_get (JDict kvs) k = Inr (get kvs k)"
| "py_get _ k = Inl AttributeError"

text \<open>\<^verbatim>\<open>data[k]\<close> with a string key: KeyError on a dict without it, TypeError on anything else.\<close>

fun subscript :: "json \<Rightarrow> string \<Rightarrow> exn + json" where
  "subscript (JDict kvs) k = (case map_of kvs k of None \<Rightarrow> Inl (KeyError k) | Some v \<Rightarrow> Inr v)"
| "subscript _ k = Inl TypeError"

text \<open>
  \<^verbatim>\<open>hashlib.sha256(password.encode()).hexdigest()\<close>: only a \<^verbatim>\<open>str\<close> has \<^verbatim>\<open>encode\<close>, and
  \<^verbatim>\<open>encode\<close> refuses a lone surrogate.
\<close>

fun hash_password :: "lib \<Rightarrow> json \<Rightarrow> exn + string" where
  "hash_password L (JStr s) =
     (if has_surrogate s then Inl UnicodeEncodeError else Inr (sha256_hexdigest L s))"
| "hash_password L _ = Inl AttributeError"

text \<open>
  TEXT affinity: what a bound value becomes when it is stored in, or compared with, a TEXT
  column. \<open>None\<close> is NULL.
\<close>

definition text_affinity :: "lib \<Rightarrow> sqlval \<Rightarrow> string option" where
  "text_affinity L v =
     (case v of
        SqlNull \<Rightarrow> None
      | SqlInt n \<Rightarrow> Some (text_of_int L n)
      | SqlReal x \<Rightarrow> Some (text_of_real L x)
      | SqlText s \<Rightarrow> Some s)"

text \<open>INTEGER affinity: what a bound value becomes when it is stored in an INTEGER column.\<close>

definition integer_affinity :: "lib \<Rightarrow> sqlval \<Rightarrow> sqlval" where
  "integer_affinity L v =
     (let whole = (\<lambda>x. case int_of_real L x of None \<Rightarrow> SqlReal x | Some i \<Rightarrow> SqlInt i)
      in case v of
           SqlReal x \<Rightarrow> whole x
         | SqlText s \<Rightarrow> (case numeric_of_text L s of SqlReal x \<Rightarrow> whole x | w \<Rightarrow> w)
         | _ \<Rightarrow> v)"

text \<open>
  The identifier an AUTOINCREMENT table gives its next row: one more than the largest it
  has ever given out or holds; none is left after the largest 64-bit integer.
\<close>

definition new_rowid :: "int \<Rightarrow> int list \<Rightarrow> int option" where
  "new_rowid seq ids =
     (let largest = fold max ids seq
      in if largest \<ge> 2 ^ 63 - 1 then None else Some (largest + 1))"

text \<open>Binding a tuple of parameters: the first one that cannot be bound raises.\<close>

fun sql_params :: "lib \<Rightarrow> json list \<Rightarrow> exn + sqlval list" where
  "sql_params L [] = Inr []"
| "sql_params L (x # xs) =
     and_then (sql_param L x) (\<lambda>v. and_then (sql_params L xs) (\<lambda>vs. Inr (v # vs)))"

text \<open>
  An INSERT whose parameters are bound, in a table with sequence \<open>seq\<close> and identifiers
  \<open>ids\<close>; \<open>row i\<close> is the store with the new row of identifier \<open>i\<close>, or \<open>None\<close> when the row
  breaks a constraint. The three handlers that insert all commit and close the connection
  after the statement, and none closes it when the statement raises. So the result is the
  exception, if any, and the store the call leaves behind:
  \<^item> while another connection holds the write lock the statement waits and gives up with
    OperationalError;
  \<^item> a table that has no identifier left raises OperationalError, and SQLite ends the
    transaction itself;
  \<^item> a constraint raises IntegrityError, the statement is undone, and its transaction
    stays open on the unclosed connection, holding the write lock.
\<close>

definition write_statement ::
  "db \<Rightarrow> int \<Rightarrow> int list \<Rightarrow> (int \<Rightarrow> db option) \<Rightarrow> exn option \<times> db" where
  "write_statement d seq ids row =
     (if write_lock d then (Some OperationalError, d)
      else case new_rowid seq ids of
             None \<Rightarrow> (Some OperationalError, d)
           | Some i \<Rightarrow>
               (case row i of
                  None \<Rightarrow> (Some IntegrityError, d\<lparr>write_lock := True\<rparr>)
                | Some d' \<Rightarrow> (None, d')))"

subsection \<open>Login\<close>

text \<open>
  \<^verbatim>\<open>SELECT id, username, email, user_type FROM users WHERE username = ? AND password_hash = ?
  AND user_type = ?\<close> with \<^verbatim>\<open>fetchone()\<close>.
\<close>

definition select_user :: "lib \<Rightarrow> db \<Rightarrow> json \<Rightarrow> string \<Rightarrow> json \<Rightarrow> exn + user_row option" where
  "select_user L d username password_hash user_type =
     and_then (sql_param L username) (\<lambda>vu.
     and_then (sql_param L user_type) (\<lambda>vt.
       Inr (find (\<lambda>u. text_affinity L vu = Some (u_username u) \<and>
                       u_password_hash u = password_hash \<and>
                       text_affinity L vt = Some (u_user_type u))
              (users d))))"

definition handle_login :: "lib \<Rightarrow> db \<Rightarrow> json \<Rightarrow> exn + response" where
  "handle_login L d data =
     and_then (py_get data ''username'') (\<lambda>username.
     and_then (py_get data ''password'') (\<lambda>password.
     and_then (py_get data ''user_type'') (\<lambda>user_type.
     and_then (hash_password L password) (\<lambda>password_hash.
     and_then (select_user L d username password_hash user_type) (\<lambda>user.
       case user of
         Some u \<Rightarrow> Inr (OkUser (u_id u) (u_username u) (u_email u) (u_user_type u))
       | None \<Rightarrow> Inr (Failure ''Invalid credentials''))))))"

subsection \<open>Registration\<close>

text \<open>
  \<^verbatim>\<open>INSERT INTO users (username, email, password_hash, user_type) VALUES (?, ?, ?, 'adopter')\<close>
  at the time \<open>now\<close>. A parameter that cannot be bound raises before the statement runs. The
  constraints are NOT NULL on both columns and UNIQUE on each.
\<close>

definition insert_user ::
  "lib \<Rightarrow> string \<Rightarrow> db \<Rightarrow> json \<Rightarrow> json \<Rightarrow> string \<Rightarrow> exn option \<times> db" where
  "insert_user L now d username email password_hash =
     (case sql_params L [username, email] of
        Inl e \<Rightarrow> (Some e, d)
      | Inr vs \<Rightarrow>
          write_statement d (users_seq d) (map u_id (users d)) (\<lambda>i.
            case map (text_affinity L) vs of
              [Some u, Some e] \<Rightarrow>
                if \<exists>row \<in> set (users d). u_username row = u \<or> u_email row = e then None
                else Some (d\<lparr>users := users d @
                       [\<lparr>u_id = i, u_username = u, u_email = e,
                         u_password_hash = password_hash, u_user_type = ''adopter'',
                         u_created_at = now\<rparr>],
                       users_seq := i\<rparr>)
            | _ \<Rightarrow> None))"

text \<open>
  The handler: the hash is computed before the \<^verbatim>\<open>try\<close>, the \<^verbatim>\<open>except\<close> clause names
  \<^verbatim>\<open>sqlite3.IntegrityError\<close> only, and \<^verbatim>\<open>conn.close()\<close> stands on the path of success only. The
  result is the outcome and the store after the call.
\<close>

definition handle_register :: "lib \<Rightarrow> string \<Rightarrow> db \<Rightarrow> json \<Rightarrow> (exn + response) \<times> db" where
  "handle_register L now d data =
     (case and_then (py_get data ''username'') (\<lambda>username.
           and_then (py_get data ''email'') (\<lambda>email.
           and_then (py_get data ''password'') (\<lambda>password.
           and_then (hash_password L password) (\<lambda>password_hash.
             Inr (username, email, password_hash))))) of
        Inl e \<Rightarrow> (Inl e, d)
      | Inr (username, email, password_hash) \<Rightarrow>
          (case insert_user L now d username email password_hash of
             (None, d') \<Rightarrow> (Inr Ok, d')
           | (Some IntegrityError, d') \<Rightarrow>
               (Inr (Failure ''Username or email already exists''), d')
           | (Some e, d') \<Rightarrow> (Inl e, d')))"

subsection \<open>Listing the animals\<close>

definition pet_json :: "animal_row \<Rightarrow> json" where
  "pet_json a =
     JDict [(''id'', JInt (a_id a)), (''name'', JStr (a_name a)),
            (''species'', JStr (a_species a)), (''breed'', JStr (a_breed a)),
            (''color'', JStr (a_color a)), (''age_months'', JInt (a_age_months a)),
            (''gender'', JStr (a_gender a)), (''vaccinated'', JBool (a_vaccinated a \<noteq> 0)),
            (''activity_level'', JStr (a_activity_level a)),
            (''weight_kg'', JFloat (a_weight_kg a)),
            (''description'', case a_description a of None \<Rightarrow> JNull | Some s \<Rightarrow> JStr s),
            (''profile_photo_url'',
               case a_profile_photo_url a of None \<Rightarrow> JNull | Some s \<Rightarrow> JStr s)]"

definition handle_get_pets :: "db \<Rightarrow> response" where
  "handle_get_pets d = OkPets (map pet_json (animals d))"

subsection \<open>Adding an animal\<close>

text \<open>
  The argument tuple of the INSERT, evaluated left to right: eleven subscripts of the body,
  three of them converted by \<^verbatim>\<open>int()\<close> or \<^verbatim>\<open>float()\<close>. The first exception wins.
\<close>

definition add_pet_values ::
  "lib \<Rightarrow> json \<Rightarrow>
   exn + (json \<times> json \<times> json \<times> json \<times> int \<times> json \<times> int \<times> json \<times> pyfloat \<times> json \<times> json)" where
  "add_pet_values L data =
     and_then (subscript data ''name'') (\<lambda>name.
     and_then (subscript data ''species'') (\<lambda>species.
     and_then (subscript data ''breed'') (\<lambda>breed.
     and_then (subscript data ''color'') (\<lambda>color.
     and_then (and_then (subscript data ''age_months'') (py_int L)) (\<lambda>age_months.
     and_then (subscript data ''gender'') (\<lambda>gender.
     and_then (and_then (subscript data ''vaccinated'') (py_int L)) (\<lambda>vaccinated.
     and_then (subscript data ''activity_level'') (\<lambda>activity_level.
     and_then (and_then (subscript data ''weight_kg'') (py_float L)) (\<lambda>weight_kg.
     and_then (subscript data ''description'') (\<lambda>description.
     and_then (subscript data ''profile_photo_url'') (\<lambda>profile_photo_url.
       Inr (name, species, breed, color, age_months, gender, vaccinated, activity_level,
            weight_kg, description, profile_photo_url))))))))))))"

text \<open>
  The INSERT into \<^verbatim>\<open>animals\<close> at the time \<open>now\<close>, with its NOT NULL and CHECK constraints.
\<close>

definition insert_animal ::
  "lib \<Rightarrow> string \<Rightarrow> db \<Rightarrow>
   json \<times> json \<times> json \<times> json \<times> int \<times> json \<times> int \<times> json \<times> pyfloat \<times> json \<times> json \<Rightarrow>
   exn option \<times> db" where
  "insert_animal L now d vals =
     (case vals of
        (name, species, breed, color, age_months, gender, vaccinated, activity_level,
         weight_kg, description, profile_photo_url) \<Rightarrow>
        (case sql_params L [name, species, breed, color, JInt age_months, gender,
                 JInt vaccinated, activity_level, JFloat weight_kg, description,
                 profile_photo_url] of
           Inl e \<Rightarrow> (Some e, d)
         | Inr vs \<Rightarrow>
             write_statement d (animals_seq d) (map a_id (animals d)) (\<lambda>i.
               case map (text_affinity L) vs of
                 [Some name, Some species, Some breed, Some color, _, Some gender, _,
                  Some activity_level, Some weight, description, profile_photo_url] \<Rightarrow>
                   if gender \<in> {''Male'', ''Female''} \<and> vaccinated \<in> {0, 1} \<and>
                      activity_level \<in> {''Low'', ''Medium'', ''High''}
                   then Some (d\<lparr>animals := animals d @
                          [\<lparr>a_id = i, a_name = name, a_species = species, a_breed = breed,
                            a_color = color, a_age_months = age_months, a_gender = gender,
                            a_vaccinated = vaccinated, a_activity_level = activity_level,
                            a_weight_kg = weight_kg, a_description = description,
                            a_profile_photo_url = profile_photo_url, a_created_at = now\<rparr>],
                          animals_seq := i\<rparr>)
                   else None
               | _ \<Rightarrow> None)))"

text \<open>
  The handler: everything happens inside \<^verbatim>\<open>try\<close>, and \<^verbatim>\<open>except Exception\<close> answers; the
  connection is closed on the path of success only.
\<close>

definition handle_add_pet :: "lib \<Rightarrow> string \<Rightarrow> db \<Rightarrow> json \<Rightarrow> response \<times> db" where
  "handle_add_pet L now d data =
     (case add_pet_values L data of
        Inl e \<Rightarrow> (FailureOf e, d)
      | Inr vals \<Rightarrow>
          (case insert_animal L now d vals of
             (None, d') \<Rightarrow> (Ok, d')
           | (Some e, d') \<Rightarrow> (FailureOf e, d')))"

subsection \<open>Adoption requests\<close>

text \<open>
  \<^verbatim>\<open>INSERT INTO adoption_applications (adopter_id, animal_id, adopter_name, pet_name)\<close>: the
  status and the time of submission take their defaults, and SQLite does not enforce the
  foreign keys unless asked to.
\<close>

definition insert_application ::
  "lib \<Rightarrow> string \<Rightarrow> db \<Rightarrow> json \<Rightarrow> json \<Rightarrow> json \<Rightarrow> json \<Rightarrow> exn option \<times> db" where
  "insert_application L now d adopter_id animal_id adopter_name pet_name =
     (case sql_params L [adopter_id, animal_id, adopter_name, pet_name] of
        Inl e \<Rightarrow> (Some e, d)
      | Inr vs \<Rightarrow>
          write_statement d (adoption_applications_seq d)
            (map r_id (adoption_applications d)) (\<lambda>i.
            case vs of
              [vadopter, vanimal, vname, vpet] \<Rightarrow>
                (case (text_affinity L vname, text_affinity L vpet) of
                   (Some an, Some pn) \<Rightarrow>
                     if vadopter = SqlNull \<or> vanimal = SqlNull then None
                     else Some (d\<lparr>adoption_applications := adoption_applications d @
                            [\<lparr>r_id = i, r_adopter_id = integer_affinity L vadopter,
                              r_animal_id = integer_affinity L vanimal,
                              r_adopter_name = an, r_pet_name = pn, r_status = ''pending'',
                              r_applied_at = now\<rparr>],
                            adoption_applications_seq := i\<rparr>)
                 | _ \<Rightarrow> None)
            | _ \<Rightarrow> None))"

definition handle_adopt_pet :: "lib \<Rightarrow> string \<Rightarrow> db \<Rightarrow> json \<Rightarrow> response \<times> db" where
  "handle_adopt_pet L now d data =
     (case and_then (subscript data ''adopter_id'') (\<lambda>adopter_id.
           and_then (subscript data ''animal_id'') (\<lambda>animal_id.
           and_then (subscript data ''adopter_name'') (\<lambda>adopter_name.
           and_then (subscript data ''pet_name'') (\<lambda>pet_name.
             Inr (adopter_id, animal_id, adopter_name, pet_name))))) of
        Inl e \<Rightarrow> (FailureOf e, d)
      | Inr (adopter_id, animal_id, adopter_name, pet_name) \<Rightarrow>
          (case insert_application L now d adopter_id animal_id adopter_name pet_name of
             (None, d') \<Rightarrow> (Ok, d')
           | (Some e, d') \<Rightarrow> (FailureOf e, d')))"

text \<open>
  \<^verbatim>\<open>SELECT id, adopter_name, pet_name, applied_at, status FROM adoption_applications ORDER BY
  applied_at DESC\<close>. The column holds the text CURRENT_TIMESTAMP wrote, and SQLite compares
  texts byte by byte. Rows with the same \<^verbatim>\<open>applied_at\<close> come out in table order here; SQL
  leaves their order open, and nothing below depends on it.
\<close>

fun insert_desc :: "application_row \<Rightarrow> application_row list \<Rightarrow> application_row list" where
  "insert_desc x [] = [x]"
| "insert_desc x (y # ys) =
     (if r_applied_at x \<le> r_applied_at y then y # insert_desc x ys else x # y # ys)"

definition order_by_applied_at_desc :: "application_row list \<Rightarrow> application_row list" where
  "order_by_applied_at_desc rows = foldl (\<lambda>sorted x. insert_desc x sorted) [] rows"

text \<open>Line 206: the dict built for each row.\<close>

definition request_json :: "application_row \<Rightarrow> json" where
  "request_json r =
     JDict [(''id'', JInt (r_id r)), (''adopter_name'', JStr (r_adopter_name r)),
            (''pet_name'', JStr (r_pet_name r)), (''applied_at'', JStr (r_applied_at r)),
            (''status'', JStr (r_status r))]"

definition handle_get_requests :: "db \<Rightarrow> response" where
  "handle_get_requests d =
     OkRequests (map request_json (order_by_applied_at_desc (adoption_applications d)))"

section \<open>The router\<close>

text \<open>
  A request: its path, its Content-Length header if it has one, and the bytes the client
  sends after the headers, up to the end of what it sends.
\<close>

record http_request =
  req_path :: string
  req_content_length :: "string option"
  req_body :: string

datatype body = NoBody | HtmlPage | JsonBody response

record http_response =
  status :: nat
  content_type :: "string option"
  payload :: body

definition do_GET :: "db \<Rightarrow> string \<Rightarrow> http_response" where
  "do_GET d path =
     (if path = ''/'' \<or> path = ''/index.html'' then
        \<lparr>status = 200, content_type = Some ''text/html'', payload = HtmlPage\<rparr>
      else if path = ''/api/pets'' then
        \<lparr>status = 200, content_type = Some ''application/json'',
         payload = JsonBody (handle_get_pets d)\<rparr>
      else \<lparr>status = 404, content_type = None, payload = NoBody\<rparr>)"

text \<open>
  \<^verbatim>\<open>rfile.read(n)\<close>: a count below \<open>- 1\<close> is refused with ValueError, \<open>- 1\<close> reads to the end,
  and any other count reads that many bytes, or what there is, unless it is too large.
\<close>

definition rfile_read :: "lib \<Rightarrow> int \<Rightarrow> string \<Rightarrow> exn + string" where
  "rfile_read L n bytes =
     (if n < - 1 then Inl ValueError
      else if n = - 1 then Inr bytes
      else case read_refused L n of
             Some e \<Rightarrow> Inl e
           | None \<Rightarrow> Inr (take (nat n) bytes))"

text \<open>
  Lines 1046 to 1048: \<^verbatim>\<open>int()\<close> of the Content-Length header (\<^verbatim>\<open>None\<close> when the header is
  missing), the read, and the JSON parser.
\<close>

definition read_json :: "lib \<Rightarrow> http_request \<Rightarrow> exn + json" where
  "read_json L rq =
     and_then (py_int L (case req_content_length rq of None \<Rightarrow> JNull | Some s \<Rightarrow> JStr s))
       (\<lambda>content_length.
          and_then (rfile_read L content_length (req_body rq)) (json_loads L))"

text \<open>Lines 1052 to 1065: the dispatch on the path.\<close>

definition dispatch :: "lib \<Rightarrow> string \<Rightarrow> db \<Rightarrow> string \<Rightarrow> json \<Rightarrow> (exn + response) \<times> db" where
  "dispatch L now d path data =
     (if path = ''/api/login'' then (handle_login L d data, d)
      else if path = ''/api/register'' then handle_register L now d data
      else if path = ''/api/pets'' then
        (case handle_add_pet L now d data of (r, d') \<Rightarrow> (Inr r, d'))
      else if path = ''/api/requests'' then (Inr (handle_get_requests d), d)
      else if path = ''/api/adopt'' then
        (case handle_adopt_pet L now d data of (r, d') \<Rightarrow> (Inr r, d'))
      else if path = ''/api/ai/match'' then (handle_compatibility_check L d data, d)
      else (Inr (Failure ''Unknown endpoint''), d))"

text \<open>
  \<^verbatim>\<open>do_POST\<close> has no \<^verbatim>\<open>try\<close>: an exception of the three opening lines or of a handler leaves
  it, and no response is written.
\<close>

definition do_POST :: "lib \<Rightarrow> string \<Rightarrow> db \<Rightarrow> http_request \<Rightarrow> (exn + http_response) \<times> db" where
  "do_POST L now d rq =
     (case read_json L rq of
        Inl e \<Rightarrow> (Inl e, d)
      | Inr data \<Rightarrow>
          (case dispatch L now d (req_path rq) data of
             (Inl e, d') \<Rightarrow> (Inl e, d')
           | (Inr response, d') \<Rightarrow>
               (Inr \<lparr>status = 200, content_type = Some ''application/json'',
                     payload = JsonBody response\<rparr>, d')))"

section \<open>Example data\<close>

text \<open>The first row of the sample animals that \<^verbatim>\<open>init_database\<close> inserts, and a store with it.\<close>

definition max_row :: animal_row where
  "max_row =
     \<lparr>a_id = 1, a_name = ''Max'', a_species = ''Dog'', a_breed = ''Golden Retriever'',
      a_color = ''Golden'', a_age_months = 24, a_gender = ''Male'', a_vaccinated = 1,
      a_activity_level = ''High'', a_weight_kg = PyFloat ''30.5'',
      a_description = Some ''Friendly and energetic golden retriever who loves to play fetch!'',
      a_profile_photo_url =
        Some ''https://images.unsplash.com/photo-1633722715463-d30f4f325e24?w=400'',
      a_created_at = ''2024-01-01 00:00:00''\<rparr>"


definition example_db :: db where
  "example_db =
     \<lparr>users = [], animals = [max_row], adoption_applications = [], users_seq = 0,
      animals_seq = 1, adoption_applications_seq = 0, write_lock = False\<rparr>"

text \<open>
  A store with the administrator that \<^verbatim>\<open>init_database\<close> inserts; the hash is a placeholder.
\<close>

definition admin_row :: user_row where
  "admin_row =
     \<lparr>u_id = 1, u_username = ''admin'', u_email = ''admin@shelter.com'',
      u_password_hash = ''(hash of admin123)'', u_user_type = ''admin'',
      u_created_at = ''2024-01-01 00:00:00''\<rparr>"

definition admin_db :: db where
  "admin_db =
     \<lparr>users = [admin_row], animals = [max_row], adoption_applications = [], users_seq = 1,
      animals_seq = 1, adoption_applications_seq = 0, write_lock = False\<rparr>"

text \<open>
  The theorems hold for every library; a closed example needs one. This one reads a
  Content-Length written in decimal digits and parses the two request bodies used below;
  its other components are placeholders that no example consults.
\<close>

fun decimal :: "nat \<Rightarrow> string \<Rightarrow> nat option" where
  "decimal acc [] = Some acc"
| "decimal acc (c # cs) =
     (if CHR ''0'' \<le> c \<and> c \<le> CHR ''9''
      then decimal (10 * acc + (of_char c - of_char (CHR ''0''))) cs else None)"

definition example_int :: "json \<Rightarrow> exn + int" where
  "example_int j =
     (case j of
        JInt n \<Rightarrow> Inr n
      | JStr s \<Rightarrow>
          (case (if s = [] then None else decimal 0 s) of
             None \<Rightarrow> Inl ValueError
           | Some n \<Rightarrow> Inr (int n))
      | _ \<Rightarrow> Inl TypeError)"

definition login_body :: string where
  \<open>login_body = ''{"username": "admin"}''\<close>

definition empty_body :: string where
  "empty_body = ''{}''"

definition example_loads :: "string \<Rightarrow> exn + json" where
  "example_loads s =
     (if s = login_body then Inr (JDict [(''username'', JStr ''admin'')])
      else if s = empty_body then Inr (JDict [])
      else Inl JSONDecodeError)"

definition example_lib :: lib where
  "example_lib =
     \<lparr>numeric_of_text = SqlText, int_of_real = (\<lambda>x. None), text_of_int = (\<lambda>n. []),
      text_of_real = (\<lambda>x. []), real_is_nan = (\<lambda>x. False), sha256_hexdigest = (\<lambda>s. s),
      json_loads = example_loads, py_int = example_int,
      py_float = (\<lambda>j. Inl TypeError),
      read_refused = (\<lambda>n. if n \<ge> 2 ^ 63 then Some OverflowError else None)\<rparr>"

section \<open>Properties of the compatibility check\<close>

subsection \<open>The rule blocks are the specification's rule groups\<close>

lemma two_rules:
  "(case st of (score, rs) \<Rightarrow>
      if c1 then (score + d1, rs @ [r1]) else if c2 then (score + d2, rs @ [r2]) else (score, rs))
   = apply_fired (first_firing [(c1, d1, r1), (c2, d2, r2)]) st"
  by (cases st) simp

lemma yard_rule_fired:
  "yard_rule a y st =
     apply_fired (first_firing
       [(a = ''High'' \<and> \<not> y, - 20, ''High-energy pets benefit from having a yard''),
        (a = ''High'' \<and> y, 0, ''Great match! This pet will love your yard'')]) st"
  unfolding yard_rule_def two_rules [symmetric] by (cases st) simp

lemma experience_rule_fired:
  "experience_rule a e st =
     apply_fired (first_firing
       [(e = JStr ''Beginner'' \<and> a = ''High'', - 15,
           ''High-energy pets may be challenging for beginners''),
        (e = JStr ''Experienced'', 10, ''Your experience is perfect for any pet'')]) st"
  unfolding experience_rule_def two_rules [symmetric] by (cases st) simp

lemma children_rule_fired:
  "children_rule m c st =
     apply_fired (first_firing
       [(c \<and> m < 12, - 10, ''Young pets may need extra supervision around children''),
        (c, 0, ''This pet's age is good for families with children'')]) st"
  unfolding children_rule_def two_rules [symmetric] by (cases st) simp

lemma other_pets_rule_fired:
  "other_pets_rule s p st =
     apply_fired (first_firing
       [(p \<and> s = ''Dog'', 0, ''Dogs usually adapt well to other pets''),
        (p, - 5, ''Cats may need gradual introduction to other pets'')]) st"
  unfolding other_pets_rule_def two_rules [symmetric] by (cases st) simp

lemma fold_fired:
  "foldl (\<lambda>st g. apply_fired (first_firing g) st) (s, rs) gs =
     (s + sum_list (map fst (List.map_filter first_firing gs)),
      rs @ map snd (List.map_filter first_firing gs))"
proof (induction gs arbitrary: s rs)
  case Nil
  show ?case by (simp add: List.map_filter_simps)
next
  case (Cons g gs)
  show ?case
  proof (cases "first_firing g")
    case None
    then show ?thesis using Cons.IH [of s rs] by (simp add: List.map_filter_simps)
  next
    case (Some f)
    obtain dl r where f: "f = (dl, r)" by (cases f)
    show ?thesis using Some f Cons.IH [of "s + dl" "rs @ [r]"]
      by (simp add: List.map_filter_simps)
  qed
qed

lemma raw_score_groups:
  "raw_score (sp, a, m) y c p e =
     foldl (\<lambda>st g. apply_fired (first_firing g) st) (100, []) (spec_groups sp a m y c p e)"
  unfolding raw_score_def spec_groups_def yard_rule_fired experience_rule_fired
    children_rule_fired other_pets_rule_fired
  by (simp only: foldl.simps prod.case)

lemma message_by_thresholds:
  "(if (p::int) \<ge> 80 then a else if p \<ge> 60 then b else if p \<ge> 40 then c else d) =
   (if p < 40 then d else if p < 60 then c else if p < 80 then b else (a::string))"
  by auto

lemma match_message_spec: "match_message p = spec_message p"
  unfolding match_message_def spec_message_def by (rule message_by_thresholds)

lemma clamp_cases:
  "max 0 (min 100 (t::int)) = (if t < 0 then 0 else if t > 100 then 100 else t)"
  by auto

text \<open>
  Claim C1. For every animal (species, activity level, age in months) and every applicant
  input (yard, children, other pets, experience level), the scorer of the source returns
  what the algorithm of the specification returns: the same percentage, the same message and
  the same reasons in the same order.
\<close>

theorem scorer_matches_spec:
  "compatibility (species, activityLevel, ageMonths) hasYard hasChildren hasOtherPets
     experienceLevel =
   (case spec_score species activityLevel ageMonths hasYard hasChildren hasOtherPets
           experienceLevel of
      (p, m, rs) \<Rightarrow> OkMatch p m rs)"
  unfolding compatibility_def spec_score_def raw_score_groups fold_fired
  by (simp only: Let_def prod.case clamp_cases match_message_spec append_Nil)

subsection \<open>A worked example\<close>

lemma select_max: "select_pet L example_db (JInt 1) = Inr (Some (''Dog'', ''High'', 24))"
  by (simp add: select_pet_def id_equals_def example_db_def max_row_def)

text \<open>
  Claim C2. A beginner without a yard, without children and without other pets, asking about
  a high-energy dog of 24 months, gets 65 percent, the message of a good match, and the two
  reasons about the yard and about beginners, in that order.
\<close>

theorem beginner_without_yard_scores_65:
  "handle_compatibility_check L example_db
     (JDict [(''pet_id'', JInt 1), (''has_yard'', JStr ''no''),
             (''has_children'', JStr ''no''), (''has_other_pets'', JStr ''no''),
             (''experience_level'', JStr ''Beginner'')]) =
   Inr (OkMatch 65 ''Good match! This pet would fit well in your home.''
          [''High-energy pets benefit from having a yard'',
           ''High-energy pets may be challenging for beginners''])"
  by (simp add: get_def select_max compatibility_def raw_score_def yard_rule_def
        experience_rule_def children_rule_def other_pets_rule_def match_message_def)

subsection \<open>The range of the score\<close>

text \<open>
  Claim C3. Whatever the animal and the applicant, the scorer returns a percentage, and it
  lies between 0 and 100.
\<close>

theorem percentage_in_range:
  "\<exists>n m rs. compatibility pet y c p e = OkMatch n m rs \<and> 0 \<le> n \<and> n \<le> 100"
  by (cases "raw_score pet y c p e") (simp add: compatibility_def Let_def)

lemma yard_rule_score:
  "s - 20 \<le> fst (yard_rule a y (s, rs)) \<and> fst (yard_rule a y (s, rs)) \<le> s"
  by (simp add: yard_rule_def)

lemma experience_rule_score:
  "s - 15 \<le> fst (experience_rule a e (s, rs)) \<and> fst (experience_rule a e (s, rs)) \<le> s + 10"
  by (simp add: experience_rule_def)

lemma children_rule_score:
  "s - 10 \<le> fst (children_rule m c (s, rs)) \<and> fst (children_rule m c (s, rs)) \<le> s"
  by (simp add: children_rule_def)

lemma other_pets_rule_score:
  "s - 5 \<le> fst (other_pets_rule sp p (s, rs)) \<and> fst (other_pets_rule sp p (s, rs)) \<le> s"
  by (simp add: other_pets_rule_def)

lemma raw_score_bounds:
  "50 \<le> fst (raw_score pet y c p e) \<and> fst (raw_score pet y c p e) \<le> 110"
proof -
  obtain sp a m where pet: "pet = (sp, a, m)" by (cases pet)
  obtain s1 r1 where st1: "yard_rule a y (100, []) = (s1, r1)"
    by (cases "yard_rule a y (100, [])")
  obtain s2 r2 where st2: "experience_rule a e (s1, r1) = (s2, r2)"
    by (cases "experience_rule a e (s1, r1)")
  obtain s3 r3 where st3: "children_rule m c (s2, r2) = (s3, r3)"
    by (cases "children_rule m c (s2, r2)")
  have b1: "80 \<le> s1 \<and> s1 \<le> 100" using yard_rule_score [of 100 a y "[]"] st1 by simp
  have b2: "s1 - 15 \<le> s2 \<and> s2 \<le> s1 + 10"
    using experience_rule_score [of s1 a e r1] st2 by simp
  have b3: "s2 - 10 \<le> s3 \<and> s3 \<le> s2" using children_rule_score [of s2 m c r2] st3 by simp
  have b4: "s3 - 5 \<le> fst (other_pets_rule sp p (s3, r3)) \<and>
            fst (other_pets_rule sp p (s3, r3)) \<le> s3"
    by (rule other_pets_rule_score)
  have "raw_score pet y c p e = other_pets_rule sp p (s3, r3)"
    by (simp add: raw_score_def pet st1 st2 st3)
  then show ?thesis using b1 b2 b3 b4 by simp
qed

text \<open>
  Claim C10. Before the clamp the score lies between 50 and 110, so the percentage lies
  between 50 and 100, the lower bound of the clamp changes nothing, and the message kept for
  scores below 40 is never returned.
\<close>

theorem lower_clamp_never_active:
  "50 \<le> fst (raw_score pet y c p e) \<and> fst (raw_score pet y c p e) \<le> 110 \<and>
   50 \<le> compatibility_percentage (compatibility pet y c p e) \<and>
   compatibility_percentage (compatibility pet y c p e) \<le> 100 \<and>
   compatibility_percentage (compatibility pet y c p e) = min 100 (fst (raw_score pet y c p e)) \<and>
   message (compatibility pet y c p e) \<noteq>
     ''This pet may not be the best fit, but adoption is always possible with proper preparation.''"
proof -
  obtain s rs where r: "raw_score pet y c p e = (s, rs)" by (cases "raw_score pet y c p e")
  have b: "50 \<le> s \<and> s \<le> 110" using raw_score_bounds [of pet y c p e] r by simp
  have pc: "compatibility_percentage (compatibility pet y c p e) = min 100 s"
    using b by (simp add: compatibility_def r Let_def)
  have msg: "message (compatibility pet y c p e) = match_message (min 100 s)"
    using b by (simp add: compatibility_def r Let_def)
  have m40: "40 \<le> min 100 s" using b by simp
  have "match_message (min 100 s) \<noteq>
     ''This pet may not be the best fit, but adoption is always possible with proper preparation.''"
    using m40 by (simp add: match_message_def)
  then show ?thesis using b pc msg by (simp add: r)
qed

subsection \<open>The boundary of the endpoint\<close>

text \<open>
  Claim C4. On a dict body the three flags are true exactly when the field is present and
  is the string \<^verbatim>\<open>yes\<close>: the handler answers as the scorer does on those three truth values,
  and reading the flags raises nothing (only the lookup of the pet can). So the Python truth
  \<^verbatim>\<open>True\<close>, \<^verbatim>\<open>Yes\<close> and \<^verbatim>\<open>true\<close> all count as no, as a missing field does.
\<close>

theorem flags_true_only_for_yes:
  "handle_compatibility_check L d (JDict kvs) =
     (case select_pet L d (get kvs ''pet_id'') of
        Inl ex \<Rightarrow> Inl ex
      | Inr None \<Rightarrow> Inr (Failure ''Pet not found'')
      | Inr (Some pet) \<Rightarrow>
          Inr (compatibility pet
                 (map_of kvs ''has_yard'' = Some (JStr ''yes''))
                 (map_of kvs ''has_children'' = Some (JStr ''yes''))
                 (map_of kvs ''has_other_pets'' = Some (JStr ''yes''))
                 (get kvs ''experience_level''))) \<and>
   handle_compatibility_check L example_db
     (JDict [(''pet_id'', JInt 1), (''has_yard'', JBool True),
             (''has_children'', JStr ''Yes''), (''has_other_pets'', JStr ''true'')]) =
     Inr (compatibility (''Dog'', ''High'', 24) False False False JNull) \<and>
   handle_compatibility_check L example_db (JDict [(''pet_id'', JInt 1)]) =
     Inr (compatibility (''Dog'', ''High'', 24) False False False JNull)"
proof -
  have flag: "(get kvs k = JStr ''yes'') = (map_of kvs k = Some (JStr ''yes''))" for k
    by (simp add: get_def split: option.split)
  have general: "handle_compatibility_check L d (JDict kvs) =
     (case select_pet L d (get kvs ''pet_id'') of
        Inl ex \<Rightarrow> Inl ex
      | Inr None \<Rightarrow> Inr (Failure ''Pet not found'')
      | Inr (Some pet) \<Rightarrow>
          Inr (compatibility pet
                 (map_of kvs ''has_yard'' = Some (JStr ''yes''))
                 (map_of kvs ''has_children'' = Some (JStr ''yes''))
                 (map_of kvs ''has_other_pets'' = Some (JStr ''yes''))
                 (get kvs ''experience_level'')))"
    by (simp only: handle_compatibility_check.simps Let_def flag)
  have other_values: "handle_compatibility_check L example_db
     (JDict [(''pet_id'', JInt 1), (''has_yard'', JBool True),
             (''has_children'', JStr ''Yes''), (''has_other_pets'', JStr ''true'')]) =
     Inr (compatibility (''Dog'', ''High'', 24) False False False JNull)"
    by (simp add: get_def select_max)
  have missing: "handle_compatibility_check L example_db (JDict [(''pet_id'', JInt 1)]) =
     Inr (compatibility (''Dog'', ''High'', 24) False False False JNull)"
    by (simp add: get_def select_max)
  show ?thesis using general other_values missing by (rule conjI [OF _ conjI])
qed




section \<open>Properties of the record store operations\<close>

text \<open>
  What the handler does for a duplicate when nothing is in its way: the password is a
  string that can be encoded, username and email can be bound, no connection holds the write
  lock and the table has an identifier left. It answers that the username or email exists
  and leaves the rows as they were; its connection stays open and holds the write lock.
\<close>

lemma duplicate_is_refused:
  assumes "get kvs ''password'' = JStr pw" and "\<not> has_surrogate pw"
    and "sql_param L (get kvs ''username'') = Inr vu"
    and "sql_param L (get kvs ''email'') = Inr ve"
    and "\<not> write_lock d"
    and "new_rowid (users_seq d) (map u_id (users d)) = Some i"
    and "\<exists>row \<in> set (users d).
           text_affinity L vu = Some (u_username row) \<or> text_affinity L ve = Some (u_email row)"
  shows "handle_register L now d (JDict kvs) =
           (Inr (Failure ''Username or email already exists''), d\<lparr>write_lock := True\<rparr>)"
proof -
  have ins: "insert_user L now d (get kvs ''username'') (get kvs ''email'')
               (sha256_hexdigest L pw) = (Some IntegrityError, d\<lparr>write_lock := True\<rparr>)"
  proof (cases "text_affinity L vu")
    case None
    then show ?thesis using assms(3-6)
      by (simp add: insert_user_def write_statement_def and_then_def)
  next
    case (Some u)
    note u = this
    show ?thesis
    proof (cases "text_affinity L ve")
      case None
      then show ?thesis using u assms(3-6)
        by (simp add: insert_user_def write_statement_def and_then_def)
    next
      case (Some e)
      have "\<exists>row \<in> set (users d). u_username row = u \<or> u_email row = e"
        using assms(7) u Some by auto
      then show ?thesis using u Some assms(3-6)
        by (simp add: insert_user_def write_statement_def and_then_def)
    qed
  qed
  show ?thesis
    using assms(1,2) ins by (simp add: handle_register_def and_then_def)
qed

lemma locked_store_raises:
  assumes "get kvs ''password'' = JStr pw" and "\<not> has_surrogate pw"
    and "sql_param L (get kvs ''username'') = Inr vu"
    and "sql_param L (get kvs ''email'') = Inr ve"
    and "write_lock d"
  shows "handle_register L now d (JDict kvs) = (Inl OperationalError, d)"
  using assms
  by (simp add: handle_register_def insert_user_def write_statement_def and_then_def)

text \<open>
  Claim C8. The claim is that a registration with a username the store already holds is
  always answered with \<^verbatim>\<open>Username or email already exists\<close>. The first such request is; its
  connection is never closed and keeps the write lock, so the same request sent again raises
  OperationalError, which the \<^verbatim>\<open>except\<close> clause does not name, and no response is written.
  A request with the same username and no password raises before the \<^verbatim>\<open>try\<close>. The rows of
  the users table stay as they were in all three.
\<close>

theorem repeated_duplicate_registration_raises:
  "handle_register example_lib ''2024-06-01 12:00:00'' admin_db
     (JDict [(''username'', JStr ''admin''), (''email'', JStr ''second@shelter.com''),
             (''password'', JStr ''secret'')]) =
     (Inr (Failure ''Username or email already exists''), admin_db\<lparr>write_lock := True\<rparr>) \<and>
   handle_register example_lib ''2024-06-01 12:00:01'' (admin_db\<lparr>write_lock := True\<rparr>)
     (JDict [(''username'', JStr ''admin''), (''email'', JStr ''second@shelter.com''),
             (''password'', JStr ''secret'')]) =
     (Inl OperationalError, admin_db\<lparr>write_lock := True\<rparr>) \<and>
   handle_register example_lib ''2024-06-01 12:00:00'' admin_db
     (JDict [(''username'', JStr ''admin''), (''email'', JStr ''second@shelter.com'')]) =
     (Inl AttributeError, admin_db)"
proof -
  let ?kvs = "[(''username'', JStr ''admin''), (''email'', JStr ''second@shelter.com''),
               (''password'', JStr ''secret'')]"
  have h1: "get ?kvs ''password'' = JStr ''secret''" by (simp add: get_def)
  have h2: "\<not> has_surrogate ''secret''" by simp
  have h3: "sql_param example_lib (get ?kvs ''username'') = Inr (SqlText ''admin'')"
    by (simp add: get_def)
  have h4: "sql_param example_lib (get ?kvs ''email'') = Inr (SqlText ''second@shelter.com'')"
    by (simp add: get_def)
  have h5: "\<not> write_lock admin_db" by (simp add: admin_db_def)
  have h6: "new_rowid (users_seq admin_db) (map u_id (users admin_db)) = Some 2"
    by (simp add: admin_db_def admin_row_def new_rowid_def)
  have h7: "\<exists>row \<in> set (users admin_db).
      text_affinity example_lib (SqlText ''admin'') = Some (u_username row) \<or>
      text_affinity example_lib (SqlText ''second@shelter.com'') = Some (u_email row)"
    by (simp add: admin_db_def admin_row_def text_affinity_def)
  have first: "handle_register example_lib ''2024-06-01 12:00:00'' admin_db (JDict ?kvs) =
     (Inr (Failure ''Username or email already exists''), admin_db\<lparr>write_lock := True\<rparr>)"
    by (rule duplicate_is_refused [OF h1 h2 h3 h4 h5 h6 h7])
  have h8: "write_lock (admin_db\<lparr>write_lock := True\<rparr>)" by simp
  have second: "handle_register example_lib ''2024-06-01 12:00:01''
       (admin_db\<lparr>write_lock := True\<rparr>) (JDict ?kvs) =
     (Inl OperationalError, admin_db\<lparr>write_lock := True\<rparr>)"
    by (rule locked_store_raises [OF h1 h2 h3 h4 h8])
  have third: "handle_register example_lib ''2024-06-01 12:00:00'' admin_db
     (JDict [(''username'', JStr ''admin''), (''email'', JStr ''second@shelter.com'')]) =
     (Inl AttributeError, admin_db)"
    by (simp add: handle_register_def and_then_def get_def)
  show ?thesis using first second third by (rule conjI [OF _ conjI])
qed

subsection \<open>The list of requests\<close>

lemma set_insert_desc: "set (insert_desc x xs) = insert x (set xs)"
  by (induction xs) auto

lemma mset_insert_desc: "mset (insert_desc x xs) = add_mset x (mset xs)"
  by (induction xs) auto

lemma sorted_insert_desc:
  "sorted_wrt (\<lambda>a b. r_applied_at b \<le> r_applied_at a) xs \<Longrightarrow>
   sorted_wrt (\<lambda>a b. r_applied_at b \<le> r_applied_at a) (insert_desc x xs)"
proof (induction xs)
  case Nil
  show ?case by simp
next
  case (Cons y ys)
  show ?case
  proof (cases "r_applied_at x \<le> r_applied_at y")
    case True
    then show ?thesis using Cons by (auto simp: set_insert_desc)
  next
    case False
    then have "r_applied_at y \<le> r_applied_at x" by simp
    then show ?thesis using False Cons.prems by auto
  qed
qed

lemma foldl_insert_desc:
  "sorted_wrt (\<lambda>a b. r_applied_at b \<le> r_applied_at a) acc \<Longrightarrow>
   sorted_wrt (\<lambda>a b. r_applied_at b \<le> r_applied_at a)
     (foldl (\<lambda>sorted x. insert_desc x sorted) acc rows) \<and>
   mset (foldl (\<lambda>sorted x. insert_desc x sorted) acc rows) = mset acc + mset rows"
proof (induction rows arbitrary: acc)
  case Nil
  then show ?case by simp
next
  case (Cons r rows)
  have "sorted_wrt (\<lambda>a b. r_applied_at b \<le> r_applied_at a) (insert_desc r acc)"
    using Cons.prems by (rule sorted_insert_desc)
  from Cons.IH [OF this] show ?case by (simp add: mset_insert_desc)
qed

lemma order_by_sorted:
  "sorted_wrt (\<lambda>a b. r_applied_at b \<le> r_applied_at a) (order_by_applied_at_desc rows)"
  unfolding order_by_applied_at_desc_def using foldl_insert_desc [of "[]" rows] by simp

lemma order_by_mset: "mset (order_by_applied_at_desc rows) = mset rows"
  unfolding order_by_applied_at_desc_def using foldl_insert_desc [of "[]" rows] by simp

text \<open>
  Claim C9. For every store, the list of requests is the stored applications put in an
  order in which no row was submitted before a row that follows it, and the entry of a row
  is the dict of its id, adopter name, pet name, time of submission and status.
\<close>

theorem requests_newest_first:
  "\<exists>rows. mset rows = mset (adoption_applications d) \<and>
          sorted_wrt (\<lambda>a b. r_applied_at b \<le> r_applied_at a) rows \<and>
          handle_get_requests d =
            OkRequests
              (map (\<lambda>r. JDict [(''id'', JInt (r_id r)),
                               (''adopter_name'', JStr (r_adopter_name r)),
                               (''pet_name'', JStr (r_pet_name r)),
                               (''applied_at'', JStr (r_applied_at r)),
                               (''status'', JStr (r_status r))])
                 rows)"
proof -
  let ?rows = "order_by_applied_at_desc (adoption_applications d)"
  have m: "mset ?rows = mset (adoption_applications d)" by (rule order_by_mset)
  have s: "sorted_wrt (\<lambda>a b. r_applied_at b \<le> r_applied_at a) ?rows" by (rule order_by_sorted)
  have e: "request_json = (\<lambda>r. JDict [(''id'', JInt (r_id r)),
                               (''adopter_name'', JStr (r_adopter_name r)),
                               (''pet_name'', JStr (r_pet_name r)),
                               (''applied_at'', JStr (r_applied_at r)),
                               (''status'', JStr (r_status r))])"
    by (rule ext) (simp add: request_json_def)
  have h: "handle_get_requests d = OkRequests (map request_json ?rows)"
    by (simp add: handle_get_requests_def)
  show ?thesis using m s h unfolding e by blast
qed

section \<open>Properties of the router\<close>

lemma read_login_body:
  "read_json example_lib
     \<lparr>req_path = p, req_content_length = Some ''21'', req_body = login_body\<rparr> =
   Inr (JDict [(''username'', JStr ''admin'')])"
  by (simp add: read_json_def rfile_read_def example_lib_def example_int_def
        example_loads_def and_then_def login_body_def)

lemma read_empty_body:
  "read_json example_lib
     \<lparr>req_path = p, req_content_length = Some ''2'', req_body = empty_body\<rparr> =
   Inr (JDict [])"
  by (simp add: read_json_def rfile_read_def example_lib_def example_int_def
        example_loads_def and_then_def login_body_def empty_body_def)

lemma login_no_password:
  "handle_login L d (JDict [(''username'', JStr ''admin'')]) = Inl AttributeError"
  by (simp add: handle_login_def and_then_def get_def)

text \<open>
  A Content-Length below \<open>- 1\<close> is refused by the read, so no response is written,
  whatever the path and the body.
\<close>

lemma negative_length_raises:
  assumes "req_content_length rq = Some s" and "py_int L (JStr s) = Inr n" and "n < - 1"
  shows "do_POST L now d rq = (Inl ValueError, d)"
  using assms by (simp add: do_POST_def read_json_def rfile_read_def and_then_def)

text \<open>
  The handlers that add an animal and that file an adoption request answer whatever the
  body is: their \<^verbatim>\<open>except Exception\<close> turns every exception into a failure response.
\<close>

lemma add_pet_answers: "\<exists>r d'. dispatch L now d ''/api/pets'' data = (Inr r, d')"
  by (cases "handle_add_pet L now d data") (simp add: dispatch_def)

lemma adopt_answers: "\<exists>r d'. dispatch L now d ''/api/adopt'' data = (Inr r, d')"
  by (cases "handle_adopt_pet L now d data") (simp add: dispatch_def)

lemma read_other_body:
  "read_json example_lib
     \<lparr>req_path = p, req_content_length = Some ''8'', req_body = ''not json''\<rparr> =
   Inl JSONDecodeError"
  by (simp add: read_json_def rfile_read_def example_lib_def example_int_def
        example_loads_def and_then_def login_body_def empty_body_def)

text \<open>
  Claim C6. The claim is that no request makes an exception leave the router. A login
  request whose body has a username and no password does: \<^verbatim>\<open>None\<close> has no \<^verbatim>\<open>encode\<close>, the
  login handler has no \<^verbatim>\<open>try\<close>, neither has \<^verbatim>\<open>do_POST\<close>, and no response is written. So does
  a body that is not JSON, whatever the path.
\<close>

theorem login_without_password_escapes:
  "do_POST example_lib ''2024-06-01 12:00:00'' admin_db
     \<lparr>req_path = ''/api/login'', req_content_length = Some ''21'', req_body = login_body\<rparr> =
   (Inl AttributeError, admin_db) \<and>
   do_POST example_lib ''2024-06-01 12:00:00'' admin_db
     \<lparr>req_path = ''/api/login'', req_content_length = Some ''8'', req_body = ''not json''\<rparr> =
   (Inl JSONDecodeError, admin_db)"
  by (simp add: do_POST_def read_login_body read_other_body dispatch_def login_no_password)

text \<open>
  Claim C7, as the claim states it, fails for GET: an unknown path is answered with status
  404 and no body.
\<close>

theorem get_unknown_path_is_404:
  "status (do_GET example_db ''/api/unknown'') = 404 \<and>
   payload (do_GET example_db ''/api/unknown'') \<noteq> JsonBody (Failure ''Unknown endpoint'')"
  by (simp add: do_GET_def)

text \<open>
  Claim C7, amended. A GET on a path other than the three served ones is answered with
  status 404 and no body. A POST on a path other than the six endpoints, with a body that
  is read and parsed, is answered with status 200 and the JSON failure
  \<^verbatim>\<open>Unknown endpoint\<close>, and the store is left as it was.
\<close>

theorem unknown_paths:
  "(path \<notin> {''/'', ''/index.html'', ''/api/pets''} \<longrightarrow>
      do_GET d path = \<lparr>status = 404, content_type = None, payload = NoBody\<rparr>) \<and>
   (req_path rq \<notin> {''/api/login'', ''/api/register'', ''/api/pets'', ''/api/requests'',
                     ''/api/adopt'', ''/api/ai/match''} \<and>
    read_json L rq = Inr data \<longrightarrow>
      do_POST L now d rq =
        (Inr \<lparr>status = 200, content_type = Some ''application/json'',
              payload = JsonBody (Failure ''Unknown endpoint'')\<rparr>, d))"
  by (simp add: do_GET_def do_POST_def dispatch_def)

theorem unknown_paths_witness:
  "''/api/unknown'' \<notin> {''/'', ''/index.html'', ''/api/pets''} \<and>
   do_GET example_db ''/api/unknown'' = \<lparr>status = 404, content_type = None, payload = NoBody\<rparr> \<and>
   ''/api/unknown'' \<notin> {''/api/login'', ''/api/register'', ''/api/pets'', ''/api/requests'',
                     ''/api/adopt'', ''/api/ai/match''} \<and>
   read_json example_lib
     \<lparr>req_path = ''/api/unknown'', req_content_length = Some ''2'', req_body = empty_body\<rparr> =
     Inr (JDict []) \<and>
   do_POST example_lib ''2024-06-01 12:00:00'' example_db
     \<lparr>req_path = ''/api/unknown'', req_content_length = Some ''2'', req_body = empty_body\<rparr> =
     (Inr \<lparr>status = 200, content_type = Some ''application/json'',
           payload = JsonBody (Failure ''Unknown endpoint'')\<rparr>, example_db)"
proof -
  let ?rq = "\<lparr>req_path = ''/api/unknown'', req_content_length = Some ''2'',
              req_body = empty_body\<rparr>"
  have g: "''/api/unknown'' \<notin> {''/'', ''/index.html'', ''/api/pets''}" by simp
  have p: "req_path ?rq \<notin> {''/api/login'', ''/api/register'', ''/api/pets'',
             ''/api/requests'', ''/api/adopt'', ''/api/ai/match''}" by simp
  have r: "read_json example_lib ?rq = Inr (JDict [])" by (rule read_empty_body)
  show ?thesis
    using g p r
      unknown_paths [of "''/api/unknown''" example_db ?rq example_lib "JDict []"
        "''2024-06-01 12:00:00''"]
    by simp
qed

end
